theory Spec2Isabelle
  imports Main
begin

section \<open>JavaScript strings and values\<close>

text \<open>
  A JavaScript string is modelled as a \<open>string\<close>, one \<open>char\<close> per code unit below 256.
  The values that reach the validators come from the parsed query string of a request:
  an absent parameter is \<open>Undefined\<close>, a repeated parameter is an array, a bracketed one
  (\<open>w[a]=1\<close>) an object, given by its own properties. The query parser of Express
  accepts every property name, \<open>toString\<close> included, and the values it builds are
  strings, arrays and objects, never functions. Numbers are left out: a query string
  never delivers one.
\<close>

datatype qvalue =
    Undefined
  | Null
  | Bool bool
  | Str string
  | Arr "qvalue list"
  | Obj "(string \<times> qvalue) list"

text \<open>An exception thrown by the runtime; the program throws none of its own.\<close>

datatype js_error = TypeError

text \<open>\<open>String.prototype.startsWith\<close>, \<open>endsWith\<close>, \<open>slice\<close>, \<open>includes\<close>.\<close>

definition startsWith :: "string \<Rightarrow> string \<Rightarrow> bool" where
  "startsWith s pre = (take (length pre) s = pre)"

definition endsWith :: "string \<Rightarrow> string \<Rightarrow> bool" where
  "endsWith s suf = (drop (length s - length suf) s = suf)"

definition slice :: "string \<Rightarrow> int \<Rightarrow> int \<Rightarrow> string" where
  "slice s b e =
     (let n = int (length s);
          from = (if b < 0 then max (n + b) 0 else min b n);
          to = (if e < 0 then max (n + e) 0 else min e n)
      in take (nat (to - from)) (drop (nat from) s))"

fun includes_str :: "string \<Rightarrow> string \<Rightarrow> bool" where
  "includes_str [] pat = (pat = [])"
| "includes_str (x # xs) pat = (startsWith (x # xs) pat \<or> includes_str xs pat)"

text \<open>
  \<open>String.prototype.toLowerCase\<close> on the letters \<open>A\<close> to \<open>Z\<close>; the hostname of an
  \<open>http:\<close> or \<open>https:\<close> URL holds no other upper-case letter.
\<close>

definition lower_char :: "char \<Rightarrow> char" where
  "lower_char c =
     (case map_of (zip ''ABCDEFGHIJKLMNOPQRSTUVWXYZ'' ''abcdefghijklmnopqrstuvwxyz'') c of
        Some l \<Rightarrow> l
      | None \<Rightarrow> c)"

definition toLowerCase :: "string \<Rightarrow> string" where
  "toLowerCase s = map lower_char s"

section \<open>Regular expressions of the validator\<close>

text \<open>
  The patterns of \<open>PRIVATE_IP_RANGES\<close> use literal characters, \<open>\d\<close>, character
  ranges, alternation, sequencing and the bounded repetition \<open>{1,3}\<close>, between the
  anchors \<open>^\<close> and \<open>$\<close>. \<open>run r s\<close> lists what is left of \<open>s\<close> after each way of
  matching \<open>r\<close> at its start; an anchored pattern matches when nothing is left.
\<close>

datatype regex =
    Chr char
  | Digit
  | Range char char
  | Eps
  | Seq regex regex
  | Alt regex regex

definition digits :: string where
  "digits = ''0123456789''"

definition isDigit :: "char \<Rightarrow> bool" where
  "isDigit c = (c \<in> set digits)"

definition inRange :: "char \<Rightarrow> char \<Rightarrow> char \<Rightarrow> bool" where
  "inRange a b c = ((of_char a :: nat) \<le> of_char c \<and> (of_char c :: nat) \<le> of_char b)"

fun run :: "regex \<Rightarrow> string \<Rightarrow> string list" where
  "run (Chr c) s = (case s of [] \<Rightarrow> [] | x # xs \<Rightarrow> if x = c then [xs] else [])"
| "run Digit s = (case s of [] \<Rightarrow> [] | x # xs \<Rightarrow> if isDigit x then [xs] else [])"
| "run (Range a b) s = (case s of [] \<Rightarrow> [] | x # xs \<Rightarrow> if inRange a b x then [xs] else [])"
| "run Eps s = [s]"
| "run (Seq r1 r2) s = concat (map (run r2) (run r1 s))"
| "run (Alt r1 r2) s = run r1 s @ run r2 s"

definition test :: "regex \<Rightarrow> string \<Rightarrow> bool" where
  "test r s = ([] \<in> set (run r s))"

primrec exactly :: "nat \<Rightarrow> regex \<Rightarrow> regex" where
  "exactly 0 r = Eps"
| "exactly (Suc n) r = Seq r (exactly n r)"

primrec upto :: "nat \<Rightarrow> regex \<Rightarrow> regex" where
  "upto 0 r = Eps"
| "upto (Suc n) r = Alt (Seq r (upto n r)) Eps"

definition quant :: "nat \<Rightarrow> nat \<Rightarrow> regex \<Rightarrow> regex" where
  "quant m n r = Seq (exactly m r) (upto (n - m) r)"

definition lit :: "string \<Rightarrow> regex" where
  "lit w = foldr (\<lambda>c r. Seq (Chr c) r) w Eps"

definition seqs :: "regex list \<Rightarrow> regex" where
  "seqs rs = foldr Seq rs Eps"

definition d13 :: regex where
  "d13 = quant 1 3 Digit"

abbreviation dot :: regex where
  "dot \<equiv> Chr CHR ''.''"

section \<open>validator.js\<close>

definition PRIVATE_IP_RANGES :: "regex list" where
  "PRIVATE_IP_RANGES =
     [ seqs [lit ''10'', dot, d13, dot, d13, dot, d13],
       seqs [lit ''172'', dot,
             Alt (Seq (Chr CHR ''1'') (Range CHR ''6'' CHR ''9''))
               (Alt (Seq (Chr CHR ''2'') Digit)
                    (Seq (Chr CHR ''3'') (Range CHR ''0'' CHR ''1''))),
             dot, d13, dot, d13],
       seqs [lit ''192'', dot, lit ''168'', dot, d13, dot, d13],
       seqs [lit ''169'', dot, lit ''254'', dot, d13, dot, d13],
       seqs [lit ''127'', dot, d13, dot, d13, dot, d13] ]"

definition BLOCKED_HOSTNAMES :: "string list" where
  "BLOCKED_HOSTNAMES = [''localhost'', ''127.0.0.1'', ''::1'', ''[::1]'']"

definition isPrivateIP :: "string \<Rightarrow> bool" where
  "isPrivateIP ip = list_ex (\<lambda>regex. test regex ip) PRIVATE_IP_RANGES"

text \<open>
  \<open>new URL(url)\<close> is the runtime's URL parser. The validator reads three fields of the
  object it returns; the parser itself is a parameter of the model, \<open>None\<close> where the
  constructor throws. The first test, \<open>!url || typeof url !== 'string'\<close>, lets
  through the non-empty strings only.
\<close>

record parsed_url =
  protocol :: string
  hostname :: string
  href :: string

type_synonym url_parser = "string \<Rightarrow> parsed_url option"

datatype validation = Invalid string | Valid string

definition validateUrl :: "url_parser \<Rightarrow> qvalue \<Rightarrow> validation" where
  "validateUrl URL url =
     (case url of
        Str s \<Rightarrow>
          if s = [] then Invalid ''URL parameter is required''
          else (case URL s of
             None \<Rightarrow> Invalid ''Invalid URL format''
           | Some parsedUrl \<Rightarrow>
               if protocol parsedUrl \<notin> set [''http:'', ''https:'']
               then Invalid ''Only http and https protocols are allowed''
               else let host = toLowerCase (hostname parsedUrl) in
                 if host \<in> set BLOCKED_HOSTNAMES
                 then Invalid ''localhost and loopback addresses are not allowed''
                 else if isPrivateIP host
                 then Invalid ''Private IP addresses are not allowed''
                 else if startsWith host ''['' \<and> endsWith host '']'' \<and>
                         (let ipv6 = slice host 1 (- 1) in
                            ipv6 = ''::1'' \<or> startsWith ipv6 ''fe80:'' \<or>
                            startsWith ipv6 ''fc'' \<or> startsWith ipv6 ''fd'')
                 then Invalid ''Private IPv6 addresses are not allowed''
                 else Valid (href parsedUrl))
      | _ \<Rightarrow> Invalid ''URL parameter is required'')"

text \<open>
  The conversion of a value to a string, as \<open>parseInt\<close> performs it on its argument.
  An array joins its elements with commas, \<open>undefined\<close> and \<open>null\<close> elements as empty
  strings. An object without an own \<open>toString\<close> property inherits the one that gives
  \<open>[object Object]\<close>; with an own \<open>toString\<close>, which is never a function here, the
  conversion finds nothing to call (the inherited \<open>valueOf\<close> returns the object itself)
  and throws a \<open>TypeError\<close>, also from inside an array.
\<close>

fun join :: "string list \<Rightarrow> string" where
  "join [] = []"
| "join [x] = x"
| "join (x # y # ys) = x @ '','' @ join (y # ys)"

fun collect :: "(js_error + 'a) list \<Rightarrow> js_error + 'a list" where
  "collect [] = Inr []"
| "collect (Inl e # rs) = Inl e"
| "collect (Inr x # rs) = (case collect rs of Inl e \<Rightarrow> Inl e | Inr xs \<Rightarrow> Inr (x # xs))"

fun ToString :: "qvalue \<Rightarrow> js_error + string" where
  "ToString Undefined = Inr ''undefined''"
| "ToString Null = Inr ''null''"
| "ToString (Bool b) = Inr (if b then ''true'' else ''false'')"
| "ToString (Str s) = Inr s"
| "ToString (Obj props) =
     (case map_of props ''toString'' of
        None \<Rightarrow> Inr ''[object Object]''
      | Some v \<Rightarrow> Inl TypeError)"
| "ToString (Arr xs) =
     (case collect (map (\<lambda>x. if x = Undefined \<or> x = Null then Inr [] else ToString x) xs) of
        Inl e \<Rightarrow> Inl e
      | Inr parts \<Rightarrow> Inr (join parts))"

text \<open>
  \<open>parseInt(v, 10)\<close>. The argument is converted to a string first, which may throw;
  then leading
  white space (of the white space characters, those below 256) is dropped, one sign is
  read, and the longest prefix of decimal digits is the value. \<open>None\<close> is \<open>NaN\<close>: no
  digit was found. The JavaScript result is a
  double; the model keeps the exact integer, which differs from it only above \<open>2^53\<close>,
  far outside every bound the callers clamp to, and is zero exactly when the double is.
\<close>

definition isWhiteSpace :: "char \<Rightarrow> bool" where
  "isWhiteSpace c = (c \<in> set [CHR 0x09, CHR 0x0A, CHR 0x0B, CHR 0x0C, CHR 0x0D, CHR 0x20, CHR 0xA0])"

definition digit_value :: "char \<Rightarrow> int" where
  "digit_value c = of_char c - 48"

definition parseInt_string :: "string \<Rightarrow> int option" where
  "parseInt_string inputString =
     (let S = dropWhile isWhiteSpace inputString;
          sign = (if take 1 S = ''-'' then - 1 else 1);
          S' = (if take 1 S = ''-'' \<or> take 1 S = ''+'' then drop 1 S else S);
          Z = takeWhile isDigit S'
      in if Z = [] then None
         else Some (sign * foldl (\<lambda>n c. 10 * n + digit_value c) 0 Z))"

definition parseInt :: "qvalue \<Rightarrow> js_error + int option" where
  "parseInt v =
     (case ToString v of
        Inl e \<Rightarrow> Inl e
      | Inr inputString \<Rightarrow> Inr (parseInt_string inputString))"

record viewport =
  width :: int
  height :: int

text \<open>
  \<open>validateViewport\<close> calls \<open>parseInt\<close> on the width, then on the height, and catches
  nothing: an exception of either call is the outcome of the function.
\<close>

definition validateViewport :: "qvalue \<Rightarrow> qvalue \<Rightarrow> js_error + viewport" where
  "validateViewport qw qh =
     (let MIN_SIZE = 200; MAX_SIZE = 3000; DEFAULT_WIDTH = 1366; DEFAULT_HEIGHT = 768 in
      case parseInt qw of
        Inl e \<Rightarrow> Inl e
      | Inr parsedW \<Rightarrow>
         (case parseInt qh of
            Inl e \<Rightarrow> Inl e
          | Inr parsedH \<Rightarrow>
              let w = (case parsedW of None \<Rightarrow> DEFAULT_WIDTH | Some n \<Rightarrow> n);
                  h = (case parsedH of None \<Rightarrow> DEFAULT_HEIGHT | Some n \<Rightarrow> n)
              in Inr \<lparr>width = max MIN_SIZE (min MAX_SIZE w),
                       height = max MIN_SIZE (min MAX_SIZE h)\<rparr>))"

definition isFullPage :: "qvalue \<Rightarrow> bool" where
  "isFullPage v =
     (case v of
        Undefined \<Rightarrow> False
      | Null \<Rightarrow> False
      | Bool b \<Rightarrow> b
      | _ \<Rightarrow> v = Str ''true'' \<or> v = Str ''1'')"

text \<open>
  What \<open>new URL\<close> returns in Node on a few inputs, and \<open>None\<close> elsewhere: a finite
  excerpt of the parser, for running the validator on concrete URLs.
\<close>

definition URL_sample :: url_parser where
  "URL_sample = map_of
     [ (''https://example.com/'',
          \<lparr>protocol = ''https:'', hostname = ''example.com'', href = ''https://example.com/''\<rparr>),
       (''HTTPS://Example.COM/a b'',
          \<lparr>protocol = ''https:'', hostname = ''example.com'', href = ''https://example.com/a%20b''\<rparr>),
       (''https://example.com/a%20b'',
          \<lparr>protocol = ''https:'', hostname = ''example.com'', href = ''https://example.com/a%20b''\<rparr>),
       (''http://127.0.0.1/'',
          \<lparr>protocol = ''http:'', hostname = ''127.0.0.1'', href = ''http://127.0.0.1/''\<rparr>),
       (''http://192.168.1.1'',
          \<lparr>protocol = ''http:'', hostname = ''192.168.1.1'', href = ''http://192.168.1.1/''\<rparr>),
       (''ftp://10.0.0.1/'',
          \<lparr>protocol = ''ftp:'', hostname = ''10.0.0.1'', href = ''ftp://10.0.0.1/''\<rparr>) ]"

section \<open>Dotted-decimal IPv4 literals\<close>

text \<open>
  The text of an IPv4 address as the URL parser serialises it: four decimal octets
  without leading zeros, separated by dots. \<open>in_private_range\<close> is membership of the
  first two octets in 10.0.0.0/8, 172.16.0.0/12, 192.168.0.0/16, 169.254.0.0/16 or
  127.0.0.0/8.
\<close>

definition digit_char :: "nat \<Rightarrow> char" where
  "digit_char k = digits ! (k mod 10)"

definition dec_octet :: "nat \<Rightarrow> string" where
  "dec_octet n =
     (if n < 10 then [digit_char n]
      else if n < 100 then [digit_char (n div 10), digit_char n]
      else [digit_char (n div 100), digit_char (n div 10), digit_char n])"

definition ipv4_text :: "nat \<Rightarrow> nat \<Rightarrow> nat \<Rightarrow> nat \<Rightarrow> string" where
  "ipv4_text a b c d =
     dec_octet a @ ''.'' @ dec_octet b @ ''.'' @ dec_octet c @ ''.'' @ dec_octet d"

definition in_private_range :: "nat \<Rightarrow> nat \<Rightarrow> bool" where
  "in_private_range a b =
     (a = 10 \<or> (a = 172 \<and> 16 \<le> b \<and> b \<le> 31) \<or> (a = 192 \<and> b = 168) \<or>
      (a = 169 \<and> b = 254) \<or> a = 127)"

definition private_ipv4_literal :: "string \<Rightarrow> bool" where
  "private_ipv4_literal h =
     (\<exists>a b c d. a \<le> 255 \<and> b \<le> 255 \<and> c \<le> 255 \<and> d \<le> 255 \<and>
                in_private_range a b \<and> h = ipv4_text a b c d)"

text \<open>
  A bracketed IPv6 literal that is the loopback address or starts with \<open>fe80:\<close>,
  \<open>fc\<close> or \<open>fd\<close>.
\<close>

definition private_ipv6_literal :: "string \<Rightarrow> bool" where
  "private_ipv6_literal h =
     (\<exists>x. h = ''['' @ x @ '']'' \<and>
          (x = ''::1'' \<or> (\<exists>t. x = ''fe80:'' @ t) \<or> (\<exists>t. x = ''fc'' @ t) \<or>
           (\<exists>t. x = ''fd'' @ t)))"

text \<open>
  \<open>accepts r w\<close>: the pattern \<open>r\<close> can consume exactly \<open>w\<close> at the start of any text.
\<close>

definition accepts :: "regex \<Rightarrow> string \<Rightarrow> bool" where
  "accepts r w = (\<forall>rest. rest \<in> set (run r (w @ rest)))"

section \<open>screenshot.js\<close>

text \<open>
  The browser is outside the program: every awaited call either resolves or rejects
  with an error message. An \<open>engine\<close> fixes what each call of one capture does; the
  model records the calls made, in order, beside the outcome of the capture.
\<close>

datatype 'a outcome = Resolves 'a | Rejects string

type_synonym buffer = "nat list"

datatype call =
    Launch
  | NewContext int int
  | NewPage
  | SetDefaultNavigationTimeout nat
  | SetDefaultTimeout nat
  | Goto string
  | Screenshot bool
  | Close

record engine =
  launch :: "unit outcome"
  newContext :: "int \<Rightarrow> int \<Rightarrow> unit outcome"
  newPage :: "unit outcome"
  setDefaultNavigationTimeout :: "nat \<Rightarrow> unit outcome"
  setDefaultTimeout :: "nat \<Rightarrow> unit outcome"
  goto :: "string \<Rightarrow> unit outcome"
  screenshot :: "bool \<Rightarrow> buffer outcome"
  close :: "unit outcome"

definition NAVIGATION_TIMEOUT :: nat where
  "NAVIGATION_TIMEOUT = 30000"

definition SCREENSHOT_TIMEOUT :: nat where
  "SCREENSHOT_TIMEOUT = 30000"

text \<open>Sequencing inside the \<open>try\<close> block: a rejected call skips the rest.\<close>

definition andThen ::
  "call list \<times> 'a outcome \<Rightarrow> ('a \<Rightarrow> call list \<times> 'b outcome) \<Rightarrow> call list \<times> 'b outcome" where
  "andThen m f =
     (case m of
        (tr, Rejects err) \<Rightarrow> (tr, Rejects err)
      | (tr, Resolves x) \<Rightarrow> (case f x of (tr', r) \<Rightarrow> (tr @ tr', r)))"

text \<open>The statements of the \<open>try\<close> block after the browser has been launched.\<close>

definition try_block :: "engine \<Rightarrow> string \<Rightarrow> int \<Rightarrow> int \<Rightarrow> bool \<Rightarrow> call list \<times> buffer outcome" where
  "try_block e url w h fullPage =
     andThen ([NewContext w h], newContext e w h) (\<lambda>_.
     andThen ([NewPage], newPage e) (\<lambda>_.
     andThen ([SetDefaultNavigationTimeout NAVIGATION_TIMEOUT],
              setDefaultNavigationTimeout e NAVIGATION_TIMEOUT) (\<lambda>_.
     andThen ([SetDefaultTimeout SCREENSHOT_TIMEOUT], setDefaultTimeout e SCREENSHOT_TIMEOUT) (\<lambda>_.
     andThen ([Goto url], goto e url) (\<lambda>_.
     ([Screenshot fullPage], screenshot e fullPage))))))"

text \<open>
  \<open>browser\<close> is assigned only when \<open>launch\<close> resolves, so the \<open>finally\<close> block closes
  the browser in that case only; a rejected \<open>close\<close> replaces the outcome of the block.
\<close>

definition captureScreenshot ::
  "engine \<Rightarrow> string \<Rightarrow> int \<Rightarrow> int \<Rightarrow> bool \<Rightarrow> call list \<times> buffer outcome" where
  "captureScreenshot e url w h fullPage =
     (case launch e of
        Rejects err \<Rightarrow> ([Launch], Rejects err)
      | Resolves _ \<Rightarrow>
          (case try_block e url w h fullPage of (tr, r) \<Rightarrow>
             (case close e of
                Resolves _ \<Rightarrow> (Launch # tr @ [Close], r)
              | Rejects err \<Rightarrow> (Launch # tr @ [Close], Rejects err))))"

section \<open>middleware/rapidapi.js\<close>

text \<open>
  Responses carry the status, the headers the program sets, and the body. A value that
  JavaScript treats as false in a condition is \<open>undefined\<close> or the empty string here.
\<close>

datatype json = JStr string | JBool bool | JObj "(string \<times> json) list"

datatype body = Json json | Image buffer

record response =
  status :: nat
  headers :: "(string \<times> string) list"
  body :: body

definition truthy :: "string option \<Rightarrow> bool" where
  "truthy v = (v \<noteq> None \<and> v \<noteq> Some [])"

definition error_json :: "string \<Rightarrow> string \<Rightarrow> json" where
  "error_json code message =
     JObj [(''success'', JBool False),
           (''error'', JObj [(''code'', JStr code), (''message'', JStr message)])]"

text \<open>
  \<open>limits\<close> is an object literal, so \<open>limits[subscription]\<close> finds its four own
  properties and, for any other name, the properties every object inherits from
  \<open>Object.prototype\<close>. Those are functions or objects, none of them false in a
  condition; only a name found in neither place gives \<open>undefined\<close>.
\<close>

record limits =
  requestsPerMonth :: nat
  maxViewportWidth :: int
  maxViewportHeight :: int

datatype property = Own limits | Inherited string

definition BASIC :: limits where
  "BASIC = \<lparr>requestsPerMonth = 100, maxViewportWidth = 1920, maxViewportHeight = 1080\<rparr>"

definition PRO :: limits where
  "PRO = \<lparr>requestsPerMonth = 1000, maxViewportWidth = 2560, maxViewportHeight = 1440\<rparr>"

definition ULTRA :: limits where
  "ULTRA = \<lparr>requestsPerMonth = 10000, maxViewportWidth = 3000, maxViewportHeight = 3000\<rparr>"

definition MEGA :: limits where
  "MEGA = \<lparr>requestsPerMonth = 100000, maxViewportWidth = 3000, maxViewportHeight = 3000\<rparr>"

definition limits_table :: "(string \<times> limits) list" where
  "limits_table = [(''BASIC'', BASIC), (''PRO'', PRO), (''ULTRA'', ULTRA), (''MEGA'', MEGA)]"

definition Object_prototype :: "string list" where
  "Object_prototype =
     [''constructor'', ''__defineGetter__'', ''__defineSetter__'', ''hasOwnProperty'',
      ''__lookupGetter__'', ''__lookupSetter__'', ''isPrototypeOf'', ''propertyIsEnumerable'',
      ''toString'', ''valueOf'', ''__proto__'', ''toLocaleString'']"

definition get_property :: "(string \<times> limits) list \<Rightarrow> string \<Rightarrow> property option" where
  "get_property obj name =
     (case map_of obj name of
        Some v \<Rightarrow> Some (Own v)
      | None \<Rightarrow> if name \<in> set Object_prototype then Some (Inherited name) else None)"

definition getSubscriptionLimits :: "string \<Rightarrow> property" where
  "getSubscriptionLimits subscription =
     (case get_property limits_table subscription of
        Some v \<Rightarrow> v
      | None \<Rightarrow> Own BASIC)"

text \<open>Decimal text of a number, as \<open>toString()\<close> gives it for an integer.\<close>

fun toString_nat :: "nat \<Rightarrow> string" where
  "toString_nat n =
     (if n < 10 then [digit_char n] else toString_nat (n div 10) @ [digit_char n])"

declare toString_nat.simps [simp del]

definition toString_int :: "int \<Rightarrow> string" where
  "toString_int i = (if i < 0 then ''-'' @ toString_nat (nat (- i)) else toString_nat (nat i))"

text \<open>
  \<open>addRapidAPIHeaders\<close>: \<open>None\<close> where \<open>limits.requestsPerMonth.toString()\<close> throws a
  \<open>TypeError\<close>, the inherited properties having no \<open>requestsPerMonth\<close>.
\<close>

definition addRapidAPIHeaders :: "string \<Rightarrow> (string \<times> string) option" where
  "addRapidAPIHeaders subscription =
     (case getSubscriptionLimits subscription of
        Own limits \<Rightarrow> Some (''X-RateLimit-Limit'', toString_nat (requestsPerMonth limits))
      | Inherited _ \<Rightarrow> None)"

record rapidapi =
  key :: "string option"
  host :: "string option"
  user :: "string option"
  subscription :: string

datatype gate = Responded response | Next rapidapi

text \<open>The middleware that requires the proxy secret (\<open>part_000\<close>).\<close>

definition validateRapidAPI_part000 ::
  "string option \<Rightarrow> (string \<rightharpoonup> string) \<Rightarrow> gate" where
  "validateRapidAPI_part000 RAPIDAPI_PROXY_SECRET hdrs =
     (if \<not> truthy RAPIDAPI_PROXY_SECRET
      then Responded \<lparr>status = 500, headers = [],
             body = Json (error_json ''CONFIG_ERROR'' ''API not properly configured'')\<rparr>
      else if hdrs ''x-rapidapi-proxy-secret'' \<noteq> RAPIDAPI_PROXY_SECRET
      then Responded \<lparr>status = 403, headers = [],
             body = Json (error_json ''FORBIDDEN''
               ''Invalid proxy secret. Requests must come through RapidAPI.'')\<rparr>
      else Next \<lparr>key = hdrs ''x-rapidapi-key'', host = None, user = hdrs ''x-rapidapi-user'',
             subscription = (if truthy (hdrs ''x-rapidapi-subscription'')
                             then the (hdrs ''x-rapidapi-subscription'') else ''BASIC'')\<rparr>)"

text \<open>The middleware that checks the key and host headers; the proxy secret is optional (\<open>part_002\<close>).\<close>

definition validateRapidAPI_part002 ::
  "string option \<Rightarrow> string option \<Rightarrow> (string \<rightharpoonup> string) \<Rightarrow> gate" where
  "validateRapidAPI_part002 RAPIDAPI_PROXY_SECRET RAPIDAPI_HOST hdrs =
     (let rapidApiKey = hdrs ''x-rapidapi-key'';
          rapidApiHost = hdrs ''x-rapidapi-host'';
          proxySecret = hdrs ''x-rapidapi-proxy-secret''
      in if \<not> truthy rapidApiKey
         then Responded \<lparr>status = 401, headers = [],
                body = Json (error_json ''UNAUTHORIZED''
                  ''Missing X-RapidAPI-Key header. Subscribe to this API on RapidAPI.'')\<rparr>
         else if \<not> truthy rapidApiHost
         then Responded \<lparr>status = 401, headers = [],
                body = Json (error_json ''UNAUTHORIZED''
                  ''Missing X-RapidAPI-Host header. Requests must come through RapidAPI.'')\<rparr>
         else if truthy RAPIDAPI_HOST \<and> rapidApiHost \<noteq> RAPIDAPI_HOST
         then Responded \<lparr>status = 403, headers = [],
                body = Json (error_json ''FORBIDDEN'' ''Invalid X-RapidAPI-Host header.'')\<rparr>
         else if truthy RAPIDAPI_PROXY_SECRET \<and> proxySecret \<noteq> RAPIDAPI_PROXY_SECRET
         then Responded \<lparr>status = 403, headers = [],
                body = Json (error_json ''FORBIDDEN''
                  ''Invalid proxy secret. Requests must come through RapidAPI.'')\<rparr>
         else Next \<lparr>key = rapidApiKey, host = rapidApiHost,
                user = (if truthy (hdrs ''x-rapidapi-user'')
                        then hdrs ''x-rapidapi-user'' else Some ''unknown''),
                subscription = (if truthy (hdrs ''x-rapidapi-subscription'')
                                then the (hdrs ''x-rapidapi-subscription'') else ''BASIC'')\<rparr>)"

section \<open>index.js\<close>

text \<open>
  A handler either sends a response or, being an \<open>async\<close> function, fails with an
  exception that nothing catches, and then no response is sent. The viewport is computed
  before the \<open>try\<close> block, so an exception of \<open>parseInt\<close> is of that kind.
\<close>

datatype reply = Sent response | Unhandled string

text \<open>\<open>GET /screenshot\<close> as first written (\<open>src/index.js\<close>).\<close>

definition get_screenshot ::
  "url_parser \<Rightarrow> engine \<Rightarrow> qvalue \<Rightarrow> qvalue \<Rightarrow> qvalue \<Rightarrow> qvalue \<Rightarrow> reply" where
  "get_screenshot URL e url fullPage w h =
     (case validateUrl URL url of
        Invalid err \<Rightarrow>
          Sent \<lparr>status = 400, headers = [], body = Json (JObj [(''error'', JStr err)])\<rparr>
      | Valid validUrl \<Rightarrow>
         (case validateViewport w h of
            Inl e \<Rightarrow> Unhandled ''TypeError''
          | Inr viewport \<Rightarrow>
          let captureFullPage = isFullPage fullPage
          in (case snd (captureScreenshot e validUrl (width viewport) (height viewport) captureFullPage) of
                Resolves png \<Rightarrow>
                  Sent \<lparr>status = 200, headers = [(''Content-Type'', ''image/png'')], body = Image png\<rparr>
              | Rejects message \<Rightarrow>
                  Sent \<lparr>status = 500, headers = [],
                    body = Json (JObj [(''error'', JStr ''Screenshot capture failed'')])\<rparr>)))"

text \<open>\<open>GET /screenshot\<close> beside the RapidAPI routes (\<open>part_001\<close>): the message is added as \<open>details\<close>.\<close>

definition get_screenshot_part001 ::
  "url_parser \<Rightarrow> engine \<Rightarrow> qvalue \<Rightarrow> qvalue \<Rightarrow> qvalue \<Rightarrow> qvalue \<Rightarrow> reply" where
  "get_screenshot_part001 URL e url fullPage w h =
     (case validateUrl URL url of
        Invalid err \<Rightarrow>
          Sent \<lparr>status = 400, headers = [], body = Json (JObj [(''error'', JStr err)])\<rparr>
      | Valid validUrl \<Rightarrow>
         (case validateViewport w h of
            Inl e \<Rightarrow> Unhandled ''TypeError''
          | Inr viewport \<Rightarrow>
          let captureFullPage = isFullPage fullPage
          in (case snd (captureScreenshot e validUrl (width viewport) (height viewport) captureFullPage) of
                Resolves png \<Rightarrow>
                  Sent \<lparr>status = 200, headers = [(''Content-Type'', ''image/png'')], body = Image png\<rparr>
              | Rejects message \<Rightarrow>
                  Sent \<lparr>status = 500, headers = [],
                    body = Json (JObj [(''error'', JStr ''Screenshot capture failed''),
                                       (''details'', JStr message)])\<rparr>)))"

text \<open>A route with the middleware in front of its handler.\<close>

definition route :: "gate \<Rightarrow> (rapidapi \<Rightarrow> reply) \<Rightarrow> reply" where
  "route g handler = (case g of Responded res \<Rightarrow> Sent res | Next info \<Rightarrow> handler info)"

text \<open>
  The viewport of \<open>GET /v1/screenshot\<close>: \<open>parseInt(width, 10) || 1366\<close> takes the
  default when the parsed value is \<open>NaN\<close> or zero, then the value is clamped between 200
  and the limit of the subscription. Both calls of \<open>parseInt\<close> come before the \<open>try\<close>
  block.
\<close>

definition or_default :: "int option \<Rightarrow> int \<Rightarrow> int" where
  "or_default parsed dflt = (case parsed of None \<Rightarrow> dflt | Some n \<Rightarrow> if n = 0 then dflt else n)"

definition v1_viewport :: "limits \<Rightarrow> qvalue \<Rightarrow> qvalue \<Rightarrow> js_error + int \<times> int" where
  "v1_viewport limits qwidth qheight =
     (case parseInt qwidth of
        Inl e \<Rightarrow> Inl e
      | Inr parsedW \<Rightarrow>
         (case parseInt qheight of
            Inl e \<Rightarrow> Inl e
          | Inr parsedH \<Rightarrow>
              let w = or_default parsedW 1366;
                  h = or_default parsedH 768
              in Inr (max 200 (min (maxViewportWidth limits) w),
                      max 200 (min (maxViewportHeight limits) h))))"

text \<open>The classification of a capture failure in the \<open>catch\<close> block of \<open>GET /v1/screenshot\<close>.\<close>

definition classify :: "string \<Rightarrow> string \<times> nat" where
  "classify message =
     (let initial = (''CAPTURE_FAILED'', 500) in
      if includes_str message ''timeout'' \<or> includes_str message ''Timeout''
      then (''TIMEOUT'', 504)
      else if includes_str message ''net::ERR_NAME_NOT_RESOLVED''
      then (''DOMAIN_NOT_FOUND'', 400)
      else if includes_str message ''net::ERR_CONNECTION_REFUSED''
      then (''CONNECTION_REFUSED'', 400)
      else initial)"

definition truthy_q :: "qvalue \<Rightarrow> bool" where
  "truthy_q v =
     (case v of Undefined \<Rightarrow> False | Null \<Rightarrow> False | Bool b \<Rightarrow> b | Str s \<Rightarrow> s \<noteq> [] | _ \<Rightarrow> True)"

text \<open>
  \<open>GET /v1/screenshot\<close> behind the middleware. \<open>duration\<close> is the time the clock
  measured around the capture. The limits are looked up twice, by \<open>addRapidAPIHeaders\<close>
  and by the handler; the handler is past the first lookup only if that one found a
  record, so the second finds the same record.
\<close>

definition get_v1_screenshot ::
  "url_parser \<Rightarrow> engine \<Rightarrow> nat \<Rightarrow> rapidapi \<Rightarrow> qvalue \<Rightarrow> qvalue \<Rightarrow> qvalue \<Rightarrow> qvalue \<Rightarrow> qvalue \<Rightarrow> reply" where
  "get_v1_screenshot URL e duration info url full_page qwidth qheight format =
     (case addRapidAPIHeaders (subscription info) of
        None \<Rightarrow> Unhandled ''TypeError''
      | Some rate \<Rightarrow>
         (case validateUrl URL url of
            Invalid err \<Rightarrow>
              Sent \<lparr>status = 400, headers = [rate], body = Json (error_json ''INVALID_URL'' err)\<rparr>
          | Valid validUrl \<Rightarrow>
             (case getSubscriptionLimits (subscription info) of
                Inherited name \<Rightarrow> Unhandled ''TypeError''
              | Own limits \<Rightarrow>
                 (case v1_viewport limits qwidth qheight of
                    Inl e \<Rightarrow> Unhandled ''TypeError''
                  | Inr (w, h) \<Rightarrow>
                    let captureFullPage = (full_page = Str ''true'' \<or> full_page = Str ''1'') in
                    if truthy_q format \<and> format \<noteq> Str ''png''
                    then Sent \<lparr>status = 400, headers = [rate],
                           body = Json (error_json ''INVALID_FORMAT'' ''Only PNG format is supported'')\<rparr>
                    else (case snd (captureScreenshot e validUrl w h captureFullPage) of
                            Resolves png \<Rightarrow>
                              Sent \<lparr>status = 200,
                                headers = [rate, (''Content-Type'', ''image/png''),
                                  (''X-Screenshot-Width'', toString_int w),
                                  (''X-Screenshot-Height'', toString_int h),
                                  (''X-Screenshot-FullPage'', if captureFullPage then ''true'' else ''false''),
                                  (''X-Processing-Time'', toString_nat duration @ ''ms'')],
                                body = Image png\<rparr>
                          | Rejects message \<Rightarrow>
                              (case classify message of (code, st) \<Rightarrow>
                                 Sent \<lparr>status = st, headers = [rate],
                                   body = Json (JObj [(''success'', JBool False),
                                     (''error'', JObj [(''code'', JStr code),
                                        (''message'', JStr ''Failed to capture screenshot''),
                                        (''details'', JStr message)])])\<rparr>))))))"

section \<open>Notions of the specification\<close>

text \<open>\<open>is_substring pat s\<close>: \<open>pat\<close> occurs somewhere inside \<open>s\<close>.\<close>

definition is_substring :: "string \<Rightarrow> string \<Rightarrow> bool" where
  "is_substring pat s = (\<exists>before after. s = before @ pat @ after)"


text \<open>
  The viewport policy in the words of the specification: each input is parsed as an
  integer, an absent or unparsable one is replaced by the default of its axis, and each
  axis is clamped to \<open>[200, min(3000, tier maximum)]\<close> when tier limits are supplied,
  to \<open>[200, 3000]\<close> otherwise. The policy has no error path.
\<close>

definition normalize_spec :: "qvalue \<Rightarrow> qvalue \<Rightarrow> limits option \<Rightarrow> viewport" where
  "normalize_spec rawWidth rawHeight tierLimits =
     (let w = (case parseInt rawWidth of Inr (Some n) \<Rightarrow> n | _ \<Rightarrow> 1366);
          h = (case parseInt rawHeight of Inr (Some n) \<Rightarrow> n | _ \<Rightarrow> 768);
          maxW = (case tierLimits of None \<Rightarrow> 3000 | Some l \<Rightarrow> min 3000 (maxViewportWidth l));
          maxH = (case tierLimits of None \<Rightarrow> 3000 | Some l \<Rightarrow> min 3000 (maxViewportHeight l))
      in \<lparr>width = max 200 (min maxW w), height = max 200 (min maxH h)\<rparr>)"

section \<open>Sample environments\<close>

text \<open>
  A browser whose navigation runs into its timeout, and the headers of a request that
  carries a key and a host but no proxy secret.
\<close>

definition engine_timeout :: engine where
  "engine_timeout =
     \<lparr>launch = Resolves (),
      newContext = (\<lambda>w h. Resolves ()),
      newPage = Resolves (),
      setDefaultNavigationTimeout = (\<lambda>ms. Resolves ()),
      setDefaultTimeout = (\<lambda>ms. Resolves ()),
      goto = (\<lambda>url. Rejects ''page.goto: Timeout 30000ms exceeded.''),
      screenshot = (\<lambda>fullPage. Resolves [137, 80, 78, 71]),
      close = Resolves ()\<rparr>"

definition headers_sample :: "string \<rightharpoonup> string" where
  "headers_sample = map_of [(''x-rapidapi-key'', ''k1''), (''x-rapidapi-host'', ''shots.p.rapidapi.com'')]"

section \<open>The patterns accept every private IPv4 literal\<close>

lemma accepts_Seq: "accepts r1 u \<Longrightarrow> accepts r2 v \<Longrightarrow> accepts (Seq r1 r2) (u @ v)"
  by (auto simp: accepts_def)

lemma accepts_Eps: "accepts Eps []"
  by (simp add: accepts_def)

lemma accepts_AltL: "accepts r1 u \<Longrightarrow> accepts (Alt r1 r2) u"
  by (simp add: accepts_def)

lemma accepts_AltR: "accepts r2 u \<Longrightarrow> accepts (Alt r1 r2) u"
  by (simp add: accepts_def)

lemma accepts_Chr: "accepts (Chr c) [c]"
  by (simp add: accepts_def)

lemma isDigit_digit_char: "isDigit (digit_char k)"
proof -
  have "k mod 10 < length digits" by (simp add: digits_def)
  then have "digits ! (k mod 10) \<in> set digits" by (rule nth_mem)
  then show ?thesis unfolding isDigit_def digit_char_def .
qed

lemma accepts_Digit: "accepts Digit [digit_char k]"
  by (simp add: accepts_def isDigit_digit_char)

lemma accepts_lit: "accepts (lit w) w"
proof (induction w)
  case Nil
  show ?case by (simp add: lit_def accepts_Eps)
next
  case (Cons c w)
  have "accepts (Seq (Chr c) (lit w)) ([c] @ w)"
    using accepts_Chr Cons.IH by (rule accepts_Seq)
  then show ?case by (simp add: lit_def)
qed

lemma accepts_seqs: "list_all2 accepts rs ws \<Longrightarrow> accepts (seqs rs) (concat ws)"
proof (induction rs ws rule: list_all2_induct)
  case Nil
  show ?case by (simp add: seqs_def accepts_Eps)
next
  case (Cons r rs w ws)
  have "accepts (Seq r (seqs rs)) (w @ concat ws)"
    using Cons.hyps(1) Cons.IH by (rule accepts_Seq)
  then show ?case by (simp add: seqs_def)
qed

lemma d13_unfold:
  "d13 = Seq (Seq Digit Eps) (Alt (Seq Digit (Alt (Seq Digit Eps) Eps)) Eps)"
  by (simp add: d13_def quant_def eval_nat_numeral)

lemma accepts_d13: "accepts d13 (dec_octet n)"
proof -
  let ?one = "Seq Digit Eps"
  let ?opt1 = "Alt ?one Eps"
  let ?opt2 = "Alt (Seq Digit ?opt1) Eps"
  have one: "accepts ?one [digit_char k]" for k
    using accepts_Seq[OF accepts_Digit accepts_Eps] by simp
  have opt0: "accepts ?opt1 []"
    by (rule accepts_AltR) (rule accepts_Eps)
  have opt1: "accepts ?opt1 [digit_char k]" for k
    by (rule accepts_AltL) (rule one)
  have two0: "accepts ?opt2 []"
    by (rule accepts_AltR) (rule accepts_Eps)
  have two1: "accepts ?opt2 [digit_char k]" for k
    using accepts_AltL[OF accepts_Seq[OF accepts_Digit opt0]] by simp
  have two2: "accepts ?opt2 [digit_char j, digit_char k]" for j k
    using accepts_AltL[OF accepts_Seq[OF accepts_Digit opt1]] by simp
  have a1: "accepts d13 [digit_char i]" for i
    unfolding d13_unfold using accepts_Seq[OF one two0] by simp
  have a2: "accepts d13 [digit_char i, digit_char j]" for i j
    unfolding d13_unfold using accepts_Seq[OF one two1] by simp
  have a3: "accepts d13 [digit_char i, digit_char j, digit_char k]" for i j k
    unfolding d13_unfold using accepts_Seq[OF one two2] by simp
  show ?thesis
    unfolding dec_octet_def using a1 a2 a3 by simp
qed

lemma accepts_test: "accepts r w \<Longrightarrow> test r w"
  using accepts_def[of r w] by (auto simp: test_def dest: spec[where x = "[]"])

lemma ipv4_text_concat:
  "ipv4_text a b c d = concat [dec_octet a, ''.'', dec_octet b, ''.'', dec_octet c, ''.'', dec_octet d]"
  by (simp add: ipv4_text_def)

lemma accepts_dot: "accepts (Chr CHR ''.'') ''.''"
  by (rule accepts_Chr)

lemma dec_octet_lit: "dec_octet 10 = ''10''" "dec_octet 127 = ''127''" "dec_octet 172 = ''172''"
  "dec_octet 192 = ''192''" "dec_octet 168 = ''168''" "dec_octet 169 = ''169''" "dec_octet 254 = ''254''"
  by (simp_all add: dec_octet_def digit_char_def digits_def)

lemma dec_octet_two: "dec_octet 16 = ''16''" "dec_octet 17 = ''17''" "dec_octet 18 = ''18''"
  "dec_octet 19 = ''19''" "dec_octet 30 = ''30''" "dec_octet 31 = ''31''"
  by (simp_all add: dec_octet_def digit_char_def digits_def)

lemma accepts_172_second:
  assumes "16 \<le> b" "b \<le> 31"
  shows "accepts (Alt (Seq (Chr CHR ''1'') (Range CHR ''6'' CHR ''9''))
               (Alt (Seq (Chr CHR ''2'') Digit)
                    (Seq (Chr CHR ''3'') (Range CHR ''0'' CHR ''1'')))) (dec_octet b)"
    (is "accepts ?r _")
proof -
  have r1: "accepts (Range CHR ''6'' CHR ''9'') [c]" if "c \<in> set ''6789''" for c
    using that by (auto simp: accepts_def inRange_def)
  have r2: "accepts (Range CHR ''0'' CHR ''1'') [c]" if "c \<in> set ''01''" for c
    using that by (auto simp: accepts_def inRange_def)
  have teens: "accepts ?r [CHR ''1'', c]" if "c \<in> set ''6789''" for c
    using accepts_AltL[OF accepts_Seq[OF accepts_Chr r1[OF that]]] by simp
  have twenties: "accepts ?r [CHR ''2'', digit_char k]" for k
    using accepts_AltR[OF accepts_AltL[OF accepts_Seq[OF accepts_Chr accepts_Digit]]] by simp
  have thirties: "accepts ?r [CHR ''3'', c]" if "c \<in> set ''01''" for c
    using accepts_AltR[OF accepts_AltR[OF accepts_Seq[OF accepts_Chr r2[OF that]]]] by simp
  have low: "accepts ?r ''16''" "accepts ?r ''17''" "accepts ?r ''18''" "accepts ?r ''19''"
    by (rule teens, simp)+
  have high: "accepts ?r ''30''" "accepts ?r ''31''"
    by (rule thirties, simp)+
  consider "b = 16 \<or> b = 17 \<or> b = 18 \<or> b = 19" | "20 \<le> b \<and> b \<le> 29" | "b = 30 \<or> b = 31"
    using assms by arith
  then show ?thesis
  proof cases
    case 1
    with low show ?thesis using dec_octet_two by metis
  next
    case 2
    then have "b div 10 = 2" by arith
    moreover have "digit_char 2 = CHR ''2''" by (simp add: digit_char_def digits_def)
    ultimately show ?thesis using 2 twenties by (simp add: dec_octet_def)
  next
    case 3
    with high show ?thesis using dec_octet_two by metis
  qed
qed

lemma isPrivateIP_ipv4_text:
  assumes "in_private_range a b"
  shows "isPrivateIP (ipv4_text a b c d)"
proof -
  let ?tail = "[''.'', dec_octet c, ''.'', dec_octet d]"
  have tail: "list_all2 accepts [dot, d13, dot, d13] ?tail"
    by (simp add: accepts_dot accepts_d13)
  consider (ten) "a = 10" | (b172) "a = 172" "16 \<le> b" "b \<le> 31" | (b192) "a = 192" "b = 168"
    | (b169) "a = 169" "b = 254" | (loop) "a = 127"
    using assms by (auto simp: in_private_range_def)
  then show ?thesis
  proof cases
    case ten
    have "accepts (seqs ([lit ''10'', dot, d13] @ [dot, d13, dot, d13]))
            (concat ([''10'', ''.'', dec_octet b] @ ?tail))"
      by (rule accepts_seqs) (simp add: accepts_lit accepts_dot accepts_d13)
    then have "test (PRIVATE_IP_RANGES ! 0) (ipv4_text a b c d)"
      by (simp add: PRIVATE_IP_RANGES_def ipv4_text_concat dec_octet_lit accepts_test ten)
    then show ?thesis
      by (simp add: isPrivateIP_def PRIVATE_IP_RANGES_def)
  next
    case b172
    have "accepts (seqs ([lit ''172'', dot,
             Alt (Seq (Chr CHR ''1'') (Range CHR ''6'' CHR ''9''))
               (Alt (Seq (Chr CHR ''2'') Digit)
                    (Seq (Chr CHR ''3'') (Range CHR ''0'' CHR ''1'')))] @ [dot, d13, dot, d13]))
            (concat ([''172'', ''.'', dec_octet b] @ ?tail))"
      by (rule accepts_seqs) (simp add: accepts_lit accepts_dot accepts_d13 accepts_172_second b172)
    then have "test (PRIVATE_IP_RANGES ! 1) (ipv4_text a b c d)"
      by (simp add: PRIVATE_IP_RANGES_def ipv4_text_concat dec_octet_lit accepts_test b172)
    then show ?thesis
      by (simp add: isPrivateIP_def PRIVATE_IP_RANGES_def)
  next
    case b192
    have "accepts (seqs ([lit ''192'', dot, lit ''168''] @ [dot, d13, dot, d13]))
            (concat ([''192'', ''.'', ''168''] @ ?tail))"
      by (rule accepts_seqs) (simp add: accepts_lit accepts_dot accepts_d13)
    then have "test (PRIVATE_IP_RANGES ! 2) (ipv4_text a b c d)"
      by (simp add: PRIVATE_IP_RANGES_def ipv4_text_concat dec_octet_lit accepts_test b192)
    then show ?thesis
      by (simp add: isPrivateIP_def PRIVATE_IP_RANGES_def)
  next
    case b169
    have "accepts (seqs ([lit ''169'', dot, lit ''254''] @ [dot, d13, dot, d13]))
            (concat ([''169'', ''.'', ''254''] @ ?tail))"
      by (rule accepts_seqs) (simp add: accepts_lit accepts_dot accepts_d13)
    then have "test (PRIVATE_IP_RANGES ! 3) (ipv4_text a b c d)"
      by (simp add: PRIVATE_IP_RANGES_def ipv4_text_concat dec_octet_lit accepts_test b169)
    then show ?thesis
      by (simp add: isPrivateIP_def PRIVATE_IP_RANGES_def)
  next
    case loop
    have "accepts (seqs ([lit ''127'', dot, d13] @ [dot, d13, dot, d13]))
            (concat ([''127'', ''.'', dec_octet b] @ ?tail))"
      by (rule accepts_seqs) (simp add: accepts_lit accepts_dot accepts_d13)
    then have "test (PRIVATE_IP_RANGES ! 4) (ipv4_text a b c d)"
      by (simp add: PRIVATE_IP_RANGES_def ipv4_text_concat dec_octet_lit accepts_test loop)
    then show ?thesis
      by (simp add: isPrivateIP_def PRIVATE_IP_RANGES_def)
  qed
qed

lemma lower_char_digit:
  assumes "c \<in> set digits \<union> {CHR ''.''}"
  shows "lower_char c = c"
proof -
  have "\<forall>c \<in> set digits \<union> {CHR ''.''}. lower_char c = c"
    by (simp add: digits_def lower_char_def)
  with assms show ?thesis by blast
qed

lemma digit_char_mem: "digit_char k \<in> set digits"
  using isDigit_digit_char[of k] by (simp only: isDigit_def)

lemma set_dec_octet: "set (dec_octet n) \<subseteq> set digits"
  by (simp add: dec_octet_def digit_char_mem)

lemma set_ipv4_text: "set (ipv4_text a b c d) \<subseteq> set digits \<union> {CHR ''.''}"
proof -
  have "set (ipv4_text a b c d) =
          set (dec_octet a) \<union> set (dec_octet b) \<union> set (dec_octet c) \<union> set (dec_octet d) \<union> {CHR ''.''}"
    unfolding ipv4_text_def by (simp add: Un_ac)
  then show ?thesis
    using set_dec_octet[of a] set_dec_octet[of b] set_dec_octet[of c] set_dec_octet[of d]
    by blast
qed

lemma toLowerCase_ipv4_text: "toLowerCase (ipv4_text a b c d) = ipv4_text a b c d"
  unfolding toLowerCase_def
  using set_ipv4_text[of a b c d] by (intro map_idI lower_char_digit) blast

lemma hd_ipv4_text: "hd (ipv4_text a b c d) \<in> set digits"
proof -
  have ne: "dec_octet a \<noteq> []" by (simp add: dec_octet_def)
  then have "hd (ipv4_text a b c d) = hd (dec_octet a)" by (simp add: ipv4_text_def)
  moreover have "hd (dec_octet a) \<in> set (dec_octet a)" using ne by simp
  ultimately show ?thesis using set_dec_octet[of a] by auto
qed

lemma ipv4_text_not_blocked:
  assumes "ipv4_text a b c d \<noteq> ''127.0.0.1''"
  shows "ipv4_text a b c d \<notin> set BLOCKED_HOSTNAMES"
proof -
  have "\<forall>h \<in> set BLOCKED_HOSTNAMES. h = ''127.0.0.1'' \<or> hd h \<notin> set digits"
    by (simp add: BLOCKED_HOSTNAMES_def digits_def)
  then show ?thesis
    using assms hd_ipv4_text[of a b c d] by metis
qed

section \<open>The validator accepts only public targets\<close>

lemmas regex_eval = isPrivateIP_def PRIVATE_IP_RANGES_def test_def seqs_def lit_def d13_def
  quant_def isDigit_def digits_def inRange_def

lemma startsWith_iff: "startsWith s pre \<longleftrightarrow> (\<exists>t. s = pre @ t)"
proof
  assume "startsWith s pre"
  then have "s = pre @ drop (length pre) s"
    unfolding startsWith_def by (metis append_take_drop_id)
  then show "\<exists>t. s = pre @ t" ..
next
  assume "\<exists>t. s = pre @ t"
  then show "startsWith s pre" by (auto simp: startsWith_def)
qed

lemma endsWith_append: "endsWith (s @ suf) suf"
  by (simp add: endsWith_def)

lemma slice_bracket: "slice (''['' @ x @ '']'') 1 (- 1) = x"
  by (simp add: slice_def)

lemma private_ipv6_literal_code:
  assumes "private_ipv6_literal h"
  shows "startsWith h ''['' \<and> endsWith h '']'' \<and>
           (let ipv6 = slice h 1 (- 1) in
              ipv6 = ''::1'' \<or> startsWith ipv6 ''fe80:'' \<or>
              startsWith ipv6 ''fc'' \<or> startsWith ipv6 ''fd'')"
proof -
  from assms obtain x where h: "h = ''['' @ x @ '']''"
    and x: "x = ''::1'' \<or> (\<exists>t. x = ''fe80:'' @ t) \<or> (\<exists>t. x = ''fc'' @ t) \<or> (\<exists>t. x = ''fd'' @ t)"
    unfolding private_ipv6_literal_def by blast
  have "startsWith h ''[''" unfolding h startsWith_iff by blast
  moreover have "endsWith h '']''"
    using endsWith_append[of "''['' @ x" "'']''"] by (simp add: h)
  moreover have "slice h 1 (- 1) = x" unfolding h by (rule slice_bracket)
  ultimately show ?thesis using x by (simp add: startsWith_iff Let_def)
qed

lemma private_ipv4_literal_code:
  assumes "private_ipv4_literal h"
  shows "isPrivateIP h"
  using assms isPrivateIP_ipv4_text unfolding private_ipv4_literal_def by blast

text \<open>
  C1. Whenever \<open>validateUrl\<close> answers \<open>valid: true\<close>, the input was a string that
  the URL parser accepted, the answer carries the \<open>href\<close> of the parsed URL, its
  protocol is \<open>http:\<close> or \<open>https:\<close>, and its lower-cased hostname is not a blocked
  name, matches none of the private IPv4 patterns, is no dotted-decimal literal of
  10.0.0.0/8, 172.16.0.0/12, 192.168.0.0/16, 169.254.0.0/16 or 127.0.0.0/8, and is no
  bracketed IPv6 loopback, \<open>fe80:\<close>, \<open>fc\<close> or \<open>fd\<close> literal.
\<close>

theorem validateUrl_valid_is_public:
  assumes "validateUrl URL raw = Valid u"
  shows "\<exists>s p. raw = Str s \<and> URL s = Some p \<and> u = href p \<and>
           (protocol p = ''http:'' \<or> protocol p = ''https:'') \<and>
           toLowerCase (hostname p) \<notin> set BLOCKED_HOSTNAMES \<and>
           \<not> isPrivateIP (toLowerCase (hostname p)) \<and>
           \<not> private_ipv4_literal (toLowerCase (hostname p)) \<and>
           \<not> private_ipv6_literal (toLowerCase (hostname p))"
proof -
  from assms obtain s where raw: "raw = Str s" and ne: "s \<noteq> []"
    by (cases raw) (auto simp: validateUrl_def split: if_splits)
  from assms raw ne obtain p where p: "URL s = Some p"
    by (cases "URL s") (auto simp: validateUrl_def)
  let ?h = "toLowerCase (hostname p)"
  have all: "(protocol p = ''http:'' \<or> protocol p = ''https:'') \<and> ?h \<notin> set BLOCKED_HOSTNAMES \<and>
      \<not> isPrivateIP ?h \<and>
      \<not> (startsWith ?h ''['' \<and> endsWith ?h '']'' \<and>
           (let ipv6 = slice ?h 1 (- 1) in
              ipv6 = ''::1'' \<or> startsWith ipv6 ''fe80:'' \<or>
              startsWith ipv6 ''fc'' \<or> startsWith ipv6 ''fd'')) \<and> u = href p"
    using assms unfolding validateUrl_def raw
    by (simp add: ne p Let_def split: if_splits)
  then have "\<not> private_ipv4_literal ?h" "\<not> private_ipv6_literal ?h"
    using private_ipv4_literal_code[of ?h] private_ipv6_literal_code[of ?h] by blast+
  with all raw p show ?thesis by blast
qed

text \<open>The theorem at \<open>HTTPS://Example.COM/a b\<close>, which the validator accepts.\<close>

theorem validateUrl_valid_is_public_witness:
  "validateUrl URL_sample (Str ''HTTPS://Example.COM/a b'') = Valid ''https://example.com/a%20b'' \<and>
   \<not> private_ipv4_literal ''example.com'' \<and> \<not> private_ipv6_literal ''example.com''"
proof -
  have h: "validateUrl URL_sample (Str ''HTTPS://Example.COM/a b'') = Valid ''https://example.com/a%20b''"
    by (simp add: validateUrl_def URL_sample_def toLowerCase_def lower_char_def
        BLOCKED_HOSTNAMES_def regex_eval startsWith_def)
  show ?thesis
    using h validateUrl_valid_is_public[OF h]
    by (simp add: URL_sample_def toLowerCase_def lower_char_def split: if_splits)
qed

section \<open>Private IPv4 literals are rejected\<close>

lemmas ipv4_eval = ipv4_text_def dec_octet_def digit_char_def digits_def in_private_range_def

text \<open>
  C2, as the code has it. A non-empty input that parses to an \<open>http:\<close> or \<open>https:\<close>
  URL whose hostname is a dotted-decimal literal of one of the private ranges is
  rejected with \<open>Private IP addresses are not allowed\<close>, except for the hostname
  \<open>127.0.0.1\<close>: that one is on the list of blocked names, which is consulted first,
  and is rejected with \<open>localhost and loopback addresses are not allowed\<close>. With any
  other protocol the URL is rejected earlier, for its protocol.
\<close>

theorem validateUrl_private_ipv4:
  assumes "URL s = Some p" and "s \<noteq> []"
    and "a \<le> 255" "b \<le> 255" "c \<le> 255" "d \<le> 255" and "in_private_range a b"
    and "hostname p = ipv4_text a b c d"
  shows "validateUrl URL (Str s) =
           (if protocol p \<noteq> ''http:'' \<and> protocol p \<noteq> ''https:''
            then Invalid ''Only http and https protocols are allowed''
            else if hostname p = ''127.0.0.1''
            then Invalid ''localhost and loopback addresses are not allowed''
            else Invalid ''Private IP addresses are not allowed'')"
proof (cases "protocol p = ''http:'' \<or> protocol p = ''https:''")
  case False
  then show ?thesis
    using assms(1,2) by (simp add: validateUrl_def)
next
  case web: True
  have low: "toLowerCase (hostname p) = hostname p"
    using assms(8) toLowerCase_ipv4_text by simp
  have proto: "protocol p \<in> set [''http:'', ''https:'']"
    using web by auto
  have step: "validateUrl URL (Str s) =
      (if hostname p \<in> set BLOCKED_HOSTNAMES
       then Invalid ''localhost and loopback addresses are not allowed''
       else if isPrivateIP (hostname p) then Invalid ''Private IP addresses are not allowed''
       else if startsWith (hostname p) ''['' \<and> endsWith (hostname p) '']'' \<and>
                         (let ipv6 = slice (hostname p) 1 (- 1) in
                            ipv6 = ''::1'' \<or> startsWith ipv6 ''fe80:'' \<or>
                            startsWith ipv6 ''fc'' \<or> startsWith ipv6 ''fd'')
       then Invalid ''Private IPv6 addresses are not allowed''
       else Valid (href p))"
    unfolding validateUrl_def using assms(1,2) proto low by (simp add: Let_def)
  show ?thesis
  proof (cases "hostname p = ''127.0.0.1''")
    case True
    then have "hostname p \<in> set BLOCKED_HOSTNAMES"
      by (simp add: BLOCKED_HOSTNAMES_def)
    with True step web show ?thesis by auto
  next
    case False
    have nb: "hostname p \<notin> set BLOCKED_HOSTNAMES"
      using False assms(8) ipv4_text_not_blocked by metis
    have priv: "isPrivateIP (hostname p)"
      using assms(7,8) isPrivateIP_ipv4_text by simp
    show ?thesis
      using False nb priv step web by auto
  qed
qed

text \<open>The theorem at \<open>http://192.168.1.1\<close>.\<close>

theorem validateUrl_private_ipv4_witness:
  "URL_sample ''http://192.168.1.1'' =
     Some \<lparr>protocol = ''http:'', hostname = ''192.168.1.1'', href = ''http://192.168.1.1/''\<rparr> \<and>
   in_private_range 192 168 \<and> ipv4_text 192 168 1 1 = ''192.168.1.1'' \<and>
   validateUrl URL_sample (Str ''http://192.168.1.1'') = Invalid ''Private IP addresses are not allowed''"
proof -
  let ?p = "\<lparr>protocol = ''http:'', hostname = ''192.168.1.1'', href = ''http://192.168.1.1/''\<rparr>"
  have p: "URL_sample ''http://192.168.1.1'' = Some ?p"
    by (simp add: URL_sample_def)
  have r: "in_private_range 192 168" by (simp add: in_private_range_def)
  have t: "ipv4_text 192 168 1 1 = ''192.168.1.1''" by (simp add: ipv4_eval)
  have "validateUrl URL_sample (Str ''http://192.168.1.1'') =
          (if protocol ?p \<noteq> ''http:'' \<and> protocol ?p \<noteq> ''https:''
           then Invalid ''Only http and https protocols are allowed''
           else if hostname ?p = ''127.0.0.1''
           then Invalid ''localhost and loopback addresses are not allowed''
           else Invalid ''Private IP addresses are not allowed'')"
    by (rule validateUrl_private_ipv4[where URL = URL_sample and s = "''http://192.168.1.1''"
          and a = 192 and b = 168 and c = 1 and d = 1])
       (simp_all add: p ipv4_eval)
  then show ?thesis
    using p r t by simp
qed

text \<open>
  The rejection is not always the private-address one: \<open>http://127.0.0.1/\<close> is in
  127.0.0.0/8 and is rejected as a blocked name, and \<open>ftp://10.0.0.1/\<close> is in
  10.0.0.0/8 and is rejected for its protocol.
\<close>

theorem validateUrl_private_ipv4_counterexample:
  "hostname (the (URL_sample ''http://127.0.0.1/'')) = ipv4_text 127 0 0 1 \<and>
   in_private_range 127 0 \<and>
   validateUrl URL_sample (Str ''http://127.0.0.1/'') \<noteq> Invalid ''Private IP addresses are not allowed'' \<and>
   validateUrl URL_sample (Str ''http://127.0.0.1/'') =
     Invalid ''localhost and loopback addresses are not allowed'' \<and>
   hostname (the (URL_sample ''ftp://10.0.0.1/'')) = ipv4_text 10 0 0 1 \<and>
   in_private_range 10 0 \<and>
   validateUrl URL_sample (Str ''ftp://10.0.0.1/'') = Invalid ''Only http and https protocols are allowed''"
  by (simp add: URL_sample_def ipv4_eval validateUrl_def toLowerCase_def lower_char_def
      BLOCKED_HOSTNAMES_def)

section \<open>Validating a validated URL again\<close>

text \<open>
  Whether validation is idempotent (C9) rests on the URL parser, which is outside this
  development: it is left open here. What the validator itself contributes is that its
  answer depends on the parsed URL only. If the parser reads the returned \<open>href\<close> back
  to the same protocol, hostname and \<open>href\<close>, then \<open>validateUrl\<close> accepts that
  \<open>href\<close> too, with the same answer.
\<close>

lemma validateUrl_revalidate:
  assumes "validateUrl URL (Str s) = Valid u"
    and "URL s = Some p"
    and "URL (href p) = Some p" and "href p \<noteq> []"
  shows "validateUrl URL (Str u) = Valid u \<and> u = href p \<and> URL u = Some p"
proof -
  have ne: "s \<noteq> []"
    using assms(1) by (auto simp: validateUrl_def split: if_splits)
  have u: "u = href p"
    using assms(1,2) ne unfolding validateUrl_def by (simp add: Let_def split: if_splits)
  have "validateUrl URL (Str (href p)) = validateUrl URL (Str s)"
    unfolding validateUrl_def using assms(2,3,4) ne by simp
  with assms u show ?thesis by simp
qed

text \<open>The lemma at \<open>HTTPS://Example.COM/a b\<close>, normalised to \<open>https://example.com/a%20b\<close>.\<close>

lemma validateUrl_revalidate_example:
  "validateUrl URL_sample (Str ''HTTPS://Example.COM/a b'') = Valid ''https://example.com/a%20b'' \<and>
   validateUrl URL_sample (Str ''https://example.com/a%20b'') = Valid ''https://example.com/a%20b'' \<and>
   URL_sample ''https://example.com/a%20b'' = URL_sample ''HTTPS://Example.COM/a b''"
proof -
  let ?p = "\<lparr>protocol = ''https:'', hostname = ''example.com'', href = ''https://example.com/a%20b''\<rparr>"
  have v: "validateUrl URL_sample (Str ''HTTPS://Example.COM/a b'') = Valid ''https://example.com/a%20b''"
    by (simp add: validateUrl_def URL_sample_def toLowerCase_def lower_char_def
        BLOCKED_HOSTNAMES_def regex_eval startsWith_def)
  have p: "URL_sample ''HTTPS://Example.COM/a b'' = Some ?p"
    by (simp add: URL_sample_def)
  have q: "URL_sample (href ?p) = Some ?p"
    by (simp add: URL_sample_def)
  show ?thesis
    using validateUrl_revalidate[OF v p q] v p q by simp
qed

section \<open>The viewport of \<open>validateViewport\<close>\<close>

lemmas parse_eval = parseInt_def parseInt_string_def isWhiteSpace_def isDigit_def digits_def
  digit_value_def















lemma ToString_primitive:
  "ToString Undefined = Inr ''undefined''" "ToString Null = Inr ''null''"
  "ToString (Str s) = Inr s" "ToString (Obj []) = Inr ''[object Object]''"
  by simp_all

lemma validateViewport_throws:
  "(\<exists>e. validateViewport qw qh = Inl e) \<longleftrightarrow> (\<exists>e. ToString qw = Inl e) \<or> (\<exists>e. ToString qh = Inl e)"
  by (auto simp: validateViewport_def parseInt_def Let_def split: sum.splits)




section \<open>The browser is closed exactly once\<close>

lemma andThen_no_Close:
  assumes "Close \<notin> set (fst m)" and "\<And>x. Close \<notin> set (fst (f x))"
  shows "Close \<notin> set (fst (andThen m f))"
proof (cases m)
  case (Pair tr r)
  show ?thesis
  proof (cases r)
    case (Resolves x)
    obtain tr' r' where f: "f x = (tr', r')" by (cases "f x")
    have "Close \<notin> set tr'" using assms(2)[of x] f by simp
    moreover have "Close \<notin> set tr" using assms(1) Pair by simp
    ultimately show ?thesis by (simp add: andThen_def Pair Resolves f)
  next
    case (Rejects err)
    then show ?thesis using assms(1) Pair by (simp add: andThen_def)
  qed
qed

lemma try_block_no_Close: "Close \<notin> set (fst (try_block e url w h fp))"
  unfolding try_block_def
  by (intro andThen_no_Close) simp_all

text \<open>
  C3. When \<open>launch\<close> has resolved, every run of \<open>captureScreenshot\<close> calls
  \<open>browser.close\<close> exactly once, and as its last call, whatever the other calls do:
  a capture that succeeds, a navigation or a screenshot that times out or fails, or a
  failure while the context or the page is created.
\<close>

theorem captureScreenshot_closes_once:
  assumes "launch e = Resolves ok"
  shows "count_list (fst (captureScreenshot e url w h fullPage)) Close = 1 \<and>
         last (fst (captureScreenshot e url w h fullPage)) = Close"
proof -
  obtain tr r where tb: "try_block e url w h fullPage = (tr, r)"
    by (cases "try_block e url w h fullPage")
  have no: "Close \<notin> set tr"
    using try_block_no_Close[of e url w h fullPage] tb by simp
  have tr: "fst (captureScreenshot e url w h fullPage) = Launch # tr @ [Close]"
    using assms tb by (simp add: captureScreenshot_def split: outcome.split)
  have "count_list (Launch # tr @ [Close]) Close = 1"
    using no by (simp add: count_list_0_iff)
  then show ?thesis by (simp add: tr)
qed

text \<open>The theorem for a navigation that times out.\<close>

theorem captureScreenshot_closes_once_witness:
  "launch engine_timeout = Resolves () \<and>
   captureScreenshot engine_timeout ''https://example.com/'' 1366 768 False =
     ([Launch, NewContext 1366 768, NewPage, SetDefaultNavigationTimeout 30000,
       SetDefaultTimeout 30000, Goto ''https://example.com/'', Close],
      Rejects ''page.goto: Timeout 30000ms exceeded.'') \<and>
   count_list (fst (captureScreenshot engine_timeout ''https://example.com/'' 1366 768 False)) Close = 1"
proof -
  have l: "launch engine_timeout = Resolves ()"
    by (simp add: engine_timeout_def)
  have c: "captureScreenshot engine_timeout ''https://example.com/'' 1366 768 False =
     ([Launch, NewContext 1366 768, NewPage, SetDefaultNavigationTimeout 30000,
       SetDefaultTimeout 30000, Goto ''https://example.com/'', Close],
      Rejects ''page.goto: Timeout 30000ms exceeded.'')"
    by (simp add: captureScreenshot_def try_block_def andThen_def engine_timeout_def
        NAVIGATION_TIMEOUT_def SCREENSHOT_TIMEOUT_def)
  show ?thesis
    using captureScreenshot_closes_once[OF l, of "''https://example.com/''" 1366 768 False] l c
    by simp
qed

lemma captureScreenshot_launch_fails:
  "launch e = Rejects err \<Longrightarrow> captureScreenshot e url w h fullPage = ([Launch], Rejects err)"
  by (simp add: captureScreenshot_def)

section \<open>The viewport of \<open>GET /v1/screenshot\<close>\<close>

text \<open>
  C5 fails at the input \<open>"0"\<close>. The policy of the specification, like
  \<open>validateViewport\<close>, clamps the parsed zero up to 200; the route takes zero for a
  missing value and answers with the default, 1366 by 768 for the BASIC tier.
\<close>

theorem v1_viewport_zero:
  "v1_viewport BASIC (Str ''0'') (Str ''0'') = Inr (1366, 768) \<and>
   normalize_spec (Str ''0'') (Str ''0'') (Some BASIC) = \<lparr>width = 200, height = 200\<rparr> \<and>
   validateViewport (Str ''0'') (Str ''0'') = Inr \<lparr>width = 200, height = 200\<rparr>"
  by (simp add: v1_viewport_def or_default_def normalize_spec_def validateViewport_def
      BASIC_def parse_eval)

text \<open>Away from zero, and for limits of at most 3000, the route agrees with the policy.\<close>

lemma v1_viewport_nonzero:
  assumes "parseInt qw = Inr pw" and "parseInt qh = Inr ph"
    and "pw \<noteq> Some 0" and "ph \<noteq> Some 0"
    and "maxViewportWidth l \<le> 3000" and "maxViewportHeight l \<le> 3000"
  shows "v1_viewport l qw qh =
           Inr (width (normalize_spec qw qh (Some l)), height (normalize_spec qw qh (Some l)))"
  using assms
  by (auto simp: v1_viewport_def or_default_def normalize_spec_def Let_def split: option.splits)

section \<open>Classification of capture failures\<close>

lemma includes_str_iff: "includes_str s pat \<longleftrightarrow> is_substring pat s"
proof (induction s)
  case Nil
  show ?case by (auto simp: is_substring_def)
next
  case (Cons x xs)
  have "is_substring pat (x # xs) \<longleftrightarrow> (\<exists>after. x # xs = pat @ after) \<or> is_substring pat xs"
  proof
    assume "is_substring pat (x # xs)"
    then obtain before after where eq: "x # xs = before @ pat @ after"
      unfolding is_substring_def by blast
    show "(\<exists>after. x # xs = pat @ after) \<or> is_substring pat xs"
    proof (cases before)
      case Nil
      with eq show ?thesis by auto
    next
      case (Cons y ys)
      with eq have "xs = ys @ pat @ after" by simp
      then show ?thesis unfolding is_substring_def by blast
    qed
  next
    assume "(\<exists>after. x # xs = pat @ after) \<or> is_substring pat xs"
    then show "is_substring pat (x # xs)"
    proof
      assume "\<exists>after. x # xs = pat @ after"
      then obtain after where "x # xs = [] @ pat @ after" by auto
      then show ?thesis unfolding is_substring_def by blast
    next
      assume "is_substring pat xs"
      then obtain before after where "xs = before @ pat @ after"
        unfolding is_substring_def by blast
      then have "x # xs = (x # before) @ pat @ after" by simp
      then show ?thesis unfolding is_substring_def by blast
    qed
  qed
  then show ?case
    using Cons.IH by (simp add: startsWith_iff)
qed

text \<open>
  C6. The classification looks for substrings of the failure message in a fixed order,
  the first match deciding: \<open>timeout\<close> or \<open>Timeout\<close> gives \<open>TIMEOUT\<close> and 504;
  otherwise \<open>net::ERR_NAME_NOT_RESOLVED\<close> gives \<open>DOMAIN_NOT_FOUND\<close> and 400; otherwise
  \<open>net::ERR_CONNECTION_REFUSED\<close> gives \<open>CONNECTION_REFUSED\<close> and 400; any other
  message gives \<open>CAPTURE_FAILED\<close> and 500.
\<close>

theorem classify_ordered:
  "classify message =
     (if is_substring ''timeout'' message \<or> is_substring ''Timeout'' message
      then (''TIMEOUT'', 504)
      else if is_substring ''net::ERR_NAME_NOT_RESOLVED'' message
      then (''DOMAIN_NOT_FOUND'', 400)
      else if is_substring ''net::ERR_CONNECTION_REFUSED'' message
      then (''CONNECTION_REFUSED'', 400)
      else (''CAPTURE_FAILED'', 500))"
  by (simp add: classify_def includes_str_iff)

text \<open>The theorem for a message that names both a timeout and a refused connection.\<close>

theorem classify_ordered_witness:
  "classify ''net::ERR_CONNECTION_REFUSED after Timeout'' = (''TIMEOUT'', 504)"
  using classify_ordered[of "''net::ERR_CONNECTION_REFUSED after Timeout''"]
  by (simp add: classify_def startsWith_def)

lemma get_v1_screenshot_failure:
  assumes "addRapidAPIHeaders (subscription info) = Some rate"
    and "validateUrl URL url = Valid u"
    and "getSubscriptionLimits (subscription info) = Own l"
    and "v1_viewport l qw qh = Inr (vw, vh)"
    and "\<not> (truthy_q format \<and> format \<noteq> Str ''png'')"
    and "snd (captureScreenshot e u vw vh (full_page = Str ''true'' \<or> full_page = Str ''1'')) =
           Rejects message"
  shows "get_v1_screenshot URL e duration info url full_page qw qh format =
           Sent \<lparr>status = snd (classify message), headers = [rate],
             body = Json (JObj [(''success'', JBool False),
               (''error'', JObj [(''code'', JStr (fst (classify message))),
                  (''message'', JStr ''Failed to capture screenshot''),
                  (''details'', JStr message)])])\<rparr>"
proof -
  obtain code st where c: "classify message = (code, st)"
    by (cases "classify message")
  have fmt: "(truthy_q format \<and> format \<noteq> Str ''png'') = False"
    using assms(5) by simp
  show ?thesis
    unfolding get_v1_screenshot_def Let_def
    by (simp only: assms(1,2,3,4,6) c fmt option.case validation.case property.case
        prod.case outcome.case sum.case if_False fst_conv snd_conv)
qed

text \<open>An object with an own \<open>toString\<close> among the query values leaves the request unanswered.\<close>

lemma get_screenshot_unanswered:
  assumes "validateUrl URL url = Valid u" and "validateViewport w h = Inl err"
  shows "get_screenshot URL e url fullPage w h = Unhandled ''TypeError''"
    and "get_screenshot_part001 URL e url fullPage w h = Unhandled ''TypeError''"
  using assms by (simp_all add: get_screenshot_def get_screenshot_part001_def)

section \<open>Subscription limits\<close>

text \<open>
  C7 fails at the name \<open>constructor\<close>: the lookup finds the property every object
  inherits, which is not false in a condition, so the default is not taken; the result
  is none of the four records and \<open>addRapidAPIHeaders\<close> throws on it.
\<close>

theorem getSubscriptionLimits_constructor:
  "getSubscriptionLimits ''constructor'' = Inherited ''constructor'' \<and>
   getSubscriptionLimits ''constructor'' \<noteq> Own BASIC \<and>
   addRapidAPIHeaders ''constructor'' = None"
  by (simp add: getSubscriptionLimits_def get_property_def limits_table_def Object_prototype_def
      addRapidAPIHeaders_def)

text \<open>The four tier names, and every name that no object inherits, behave as specified.\<close>

lemma getSubscriptionLimits_tiers:
  "getSubscriptionLimits ''BASIC'' = Own BASIC" "getSubscriptionLimits ''PRO'' = Own PRO"
  "getSubscriptionLimits ''ULTRA'' = Own ULTRA" "getSubscriptionLimits ''MEGA'' = Own MEGA"
  by (simp_all add: getSubscriptionLimits_def get_property_def limits_table_def)

lemma getSubscriptionLimits_default:
  assumes "name \<notin> set [''BASIC'', ''PRO'', ''ULTRA'', ''MEGA'']" and "name \<notin> set Object_prototype"
  shows "getSubscriptionLimits name = Own BASIC"
  using assms by (simp add: getSubscriptionLimits_def get_property_def limits_table_def)

section \<open>The middleware without a proxy secret\<close>

text \<open>
  C8, as the code has it. With no proxy secret configured, the middleware of
  \<open>part_000\<close> answers every request with status 500 and the code \<open>CONFIG_ERROR\<close>,
  whatever the handler behind it would do. The middleware of \<open>part_002\<close> treats the secret as
  optional: it answers with 401 or 403 only, and it calls the handler exactly when the
  key and host headers are present and the host equals the configured one, if one is
  configured.
\<close>

theorem validateRapidAPI_secret_unset:
  assumes "\<not> truthy secret"
  shows "route (validateRapidAPI_part000 secret hdrs) handler =
           Sent \<lparr>status = 500, headers = [],
             body = Json (error_json ''CONFIG_ERROR'' ''API not properly configured'')\<rparr> \<and>
         (\<forall>res. validateRapidAPI_part002 secret hostname_cfg hdrs = Responded res \<longrightarrow>
                status res = 401 \<or> status res = 403) \<and>
         ((\<exists>info. validateRapidAPI_part002 secret hostname_cfg hdrs = Next info) \<longleftrightarrow>
            truthy (hdrs ''x-rapidapi-key'') \<and> truthy (hdrs ''x-rapidapi-host'') \<and>
            (truthy hostname_cfg \<longrightarrow> hdrs ''x-rapidapi-host'' = hostname_cfg)) \<and>
         validateRapidAPI_part002 secret hostname_cfg hdrs =
           (if \<not> truthy (hdrs ''x-rapidapi-key'')
            then Responded \<lparr>status = 401, headers = [],
                   body = Json (error_json ''UNAUTHORIZED''
                     ''Missing X-RapidAPI-Key header. Subscribe to this API on RapidAPI.'')\<rparr>
            else if \<not> truthy (hdrs ''x-rapidapi-host'')
            then Responded \<lparr>status = 401, headers = [],
                   body = Json (error_json ''UNAUTHORIZED''
                     ''Missing X-RapidAPI-Host header. Requests must come through RapidAPI.'')\<rparr>
            else if truthy hostname_cfg \<and> hdrs ''x-rapidapi-host'' \<noteq> hostname_cfg
            then Responded \<lparr>status = 403, headers = [],
                   body = Json (error_json ''FORBIDDEN'' ''Invalid X-RapidAPI-Host header.'')\<rparr>
            else Next \<lparr>key = hdrs ''x-rapidapi-key'', host = hdrs ''x-rapidapi-host'',
                   user = (if truthy (hdrs ''x-rapidapi-user'')
                           then hdrs ''x-rapidapi-user'' else Some ''unknown''),
                   subscription = (if truthy (hdrs ''x-rapidapi-subscription'')
                                   then the (hdrs ''x-rapidapi-subscription'') else ''BASIC'')\<rparr>)"
proof -
  have a: "route (validateRapidAPI_part000 secret hdrs) handler =
           Sent \<lparr>status = 500, headers = [],
             body = Json (error_json ''CONFIG_ERROR'' ''API not properly configured'')\<rparr>"
    using assms by (simp add: validateRapidAPI_part000_def route_def)
  have d: "validateRapidAPI_part002 secret hostname_cfg hdrs =
           (if \<not> truthy (hdrs ''x-rapidapi-key'')
            then Responded \<lparr>status = 401, headers = [],
                   body = Json (error_json ''UNAUTHORIZED''
                     ''Missing X-RapidAPI-Key header. Subscribe to this API on RapidAPI.'')\<rparr>
            else if \<not> truthy (hdrs ''x-rapidapi-host'')
            then Responded \<lparr>status = 401, headers = [],
                   body = Json (error_json ''UNAUTHORIZED''
                     ''Missing X-RapidAPI-Host header. Requests must come through RapidAPI.'')\<rparr>
            else if truthy hostname_cfg \<and> hdrs ''x-rapidapi-host'' \<noteq> hostname_cfg
            then Responded \<lparr>status = 403, headers = [],
                   body = Json (error_json ''FORBIDDEN'' ''Invalid X-RapidAPI-Host header.'')\<rparr>
            else Next \<lparr>key = hdrs ''x-rapidapi-key'', host = hdrs ''x-rapidapi-host'',
                   user = (if truthy (hdrs ''x-rapidapi-user'')
                           then hdrs ''x-rapidapi-user'' else Some ''unknown''),
                   subscription = (if truthy (hdrs ''x-rapidapi-subscription'')
                                   then the (hdrs ''x-rapidapi-subscription'') else ''BASIC'')\<rparr>)"
    using assms by (simp add: validateRapidAPI_part002_def Let_def)
  have b: "\<forall>res. validateRapidAPI_part002 secret hostname_cfg hdrs = Responded res \<longrightarrow>
                status res = 401 \<or> status res = 403"
    by (auto simp: validateRapidAPI_part002_def Let_def split: if_splits)
  have c: "(\<exists>info. validateRapidAPI_part002 secret hostname_cfg hdrs = Next info) \<longleftrightarrow>
            truthy (hdrs ''x-rapidapi-key'') \<and> truthy (hdrs ''x-rapidapi-host'') \<and>
            (truthy hostname_cfg \<longrightarrow> hdrs ''x-rapidapi-host'' = hostname_cfg)"
    using assms by (auto simp: validateRapidAPI_part002_def Let_def split: if_splits)
  from a b c d show ?thesis by blast
qed

text \<open>The theorem for a request with a key and a host header.\<close>

theorem validateRapidAPI_secret_unset_witness:
  "\<not> truthy None \<and>
   route (validateRapidAPI_part000 None headers_sample)
     (\<lambda>info. get_v1_screenshot URL_sample engine_timeout 0 info
        (Str ''https://example.com/'') Undefined Undefined Undefined Undefined) =
     Sent \<lparr>status = 500, headers = [],
       body = Json (error_json ''CONFIG_ERROR'' ''API not properly configured'')\<rparr> \<and>
   (\<exists>info. validateRapidAPI_part002 None None headers_sample = Next info)"
proof -
  have t: "\<not> truthy None" by (simp add: truthy_def)
  have h: "truthy (headers_sample ''x-rapidapi-key'') \<and> truthy (headers_sample ''x-rapidapi-host'')"
    by (simp add: truthy_def headers_sample_def)
  show ?thesis
    using validateRapidAPI_secret_unset[OF t, of headers_sample _ None] t h by simp
qed

text \<open>With no secret configured, the middleware of \<open>part_002\<close> lets that request through.\<close>

theorem validateRapidAPI_secret_unset_counterexample:
  "\<not> truthy None \<and>
   validateRapidAPI_part002 None None headers_sample =
     Next \<lparr>key = Some ''k1'', host = Some ''shots.p.rapidapi.com'', user = Some ''unknown'',
           subscription = ''BASIC''\<rparr>"
  by (simp add: validateRapidAPI_part002_def truthy_def headers_sample_def)

section \<open>Capture failures on \<open>GET /screenshot\<close>\<close>

text \<open>
  C10. On \<open>GET /screenshot\<close>, in both versions of the route, a capture that fails
  with any message is answered with status 500 and the error text
  \<open>Screenshot capture failed\<close>; the message is not classified.
\<close>

theorem get_screenshot_failure:
  assumes "validateUrl URL url = Valid u"
    and "validateViewport w h = Inr vp"
    and "snd (captureScreenshot e u (width vp) (height vp) (isFullPage fullPage)) = Rejects message"
  shows "get_screenshot URL e url fullPage w h =
           Sent \<lparr>status = 500, headers = [],
             body = Json (JObj [(''error'', JStr ''Screenshot capture failed'')])\<rparr> \<and>
         get_screenshot_part001 URL e url fullPage w h =
           Sent \<lparr>status = 500, headers = [],
             body = Json (JObj [(''error'', JStr ''Screenshot capture failed''),
                                (''details'', JStr message)])\<rparr>"
  using assms by (simp add: get_screenshot_def get_screenshot_part001_def Let_def)

lemma validateUrl_example:
  "validateUrl URL_sample (Str ''https://example.com/'') = Valid ''https://example.com/''"
  by (simp add: validateUrl_def URL_sample_def toLowerCase_def lower_char_def
      BLOCKED_HOSTNAMES_def regex_eval startsWith_def)

lemma captureScreenshot_timeout:
  "snd (captureScreenshot engine_timeout u w h fp) = Rejects ''page.goto: Timeout 30000ms exceeded.''"
  by (simp add: captureScreenshot_def try_block_def andThen_def engine_timeout_def)

lemma validateViewport_absent:
  "validateViewport Undefined Undefined = Inr \<lparr>width = 1366, height = 768\<rparr>"
  by (simp add: validateViewport_def parse_eval)

text \<open>The theorem for a navigation timeout, which \<open>GET /v1/screenshot\<close> would answer with 504.\<close>

theorem get_screenshot_failure_witness:
  "validateUrl URL_sample (Str ''https://example.com/'') = Valid ''https://example.com/'' \<and>
   classify ''page.goto: Timeout 30000ms exceeded.'' = (''TIMEOUT'', 504) \<and>
   get_screenshot URL_sample engine_timeout (Str ''https://example.com/'') Undefined Undefined Undefined =
     Sent \<lparr>status = 500, headers = [],
       body = Json (JObj [(''error'', JStr ''Screenshot capture failed'')])\<rparr>"
proof -
  have c: "classify ''page.goto: Timeout 30000ms exceeded.'' = (''TIMEOUT'', 504)"
    by (simp add: classify_def startsWith_def)
  show ?thesis
    using get_screenshot_failure[OF validateUrl_example validateViewport_absent
        captureScreenshot_timeout, of Undefined] validateUrl_example c
    by simp
qed

end
